theory Spec2Isabelle
  imports Complex_Main "HOL-Library.Char_ord" "HOL-Library.List_Lexorder"
begin

section \<open>Wallet ledger and settlement flows of the Dayly cloud functions\<close>

text \<open>
  A shallow embedding of the server part of \<^verbatim>\<open>CommunityScreen.tsx\<close> (the Firebase
  functions that follow the React screen in that file): \<^verbatim>\<open>fxConvert\<close>,
  \<^verbatim>\<open>capturePayPalOrder\<close>, the guest capture route, \<^verbatim>\<open>getTransactions\<close>,
  \<^verbatim>\<open>transferFunds\<close>, \<^verbatim>\<open>payDriverOnComplete\<close> and \<^verbatim>\<open>payAndPlaceOrder\<close>.

  Conventions of the model.
  \<^item> A JavaScript number that holds money is the rational (\<open>rat\<close>) that the double
    denotes. In the transfer, the ride settlement and the capture routes the sums,
    differences and products are the code's operations on doubles (\<open>jsAdd\<close>,
    \<open>jsSub\<close>, \<open>jsMul\<close>: the exact result rounded to the nearest double); the order
    settlement is modelled with exact arithmetic. An input that is missing or that
    \<^verbatim>\<open>Number(...)\<close> turns into \<^verbatim>\<open>NaN\<close> is \<open>None\<close>; infinities, subnormal numbers and
    a fee rate that is set but not a number are outside the model.
  \<^item> A document id that a caller or a remote service supplies goes through the SDK's
    \<^verbatim>\<open>doc()\<close> in the transfer, the capture routes and the history (\<open>walletDoc\<close>,
    \<open>docPath\<close>); in the ride and order settlements the ids are taken to name documents.
  \<^item> A Firestore \<^verbatim>\<open>Timestamp\<close> is a natural number.
  \<^item> A thrown exception is the left injection of a sum; a function that writes to
    Firestore takes the store and returns the new one.
  \<^item> What a function reads from outside (the clock, the environment, the identifiers
    that \<^verbatim>\<open>.doc()\<close> generates, the answers of remote services) is an argument.
\<close>

subsection \<open>Errors\<close>

datatype error_code =
  Unauthenticated | InvalidArgument | NotFound | PermissionDenied | FailedPrecondition | Internal

text \<open>\<open>HttpsError code message\<close> is the functions SDK's error; \<open>FetchError\<close> is the
  rejection of a \<^verbatim>\<open>fetch\<close> promise (a network failure); \<open>SdkError\<close> is the plain
  \<^verbatim>\<open>Error\<close> that the Firestore SDK throws at an argument it refuses.\<close>

datatype exn = HttpsError error_code string | FetchError | SdkError

subsection \<open>Numbers\<close>

text \<open>The number of binary digits of a positive integer.\<close>

function bitLength :: "int \<Rightarrow> nat" where
  "bitLength n = (if n \<le> 0 then 0 else Suc (bitLength (n div 2)))"
  by pat_completeness auto
termination
  by (relation "measure nat") auto

declare bitLength.simps [simp del]

text \<open>For a positive rational \<open>a\<close>, the exponent \<open>e\<close> with \<open>2^e \<le> a < 2^(e+1)\<close>.\<close>

definition floorLog2 :: "rat \<Rightarrow> int" where
  "floorLog2 a =
     (if 1 \<le> a then int (bitLength \<lfloor>a\<rfloor>) - 1
      else - int (bitLength (\<lceil>1 / a\<rceil> - 1)))"

definition roundHalfEven :: "rat \<Rightarrow> int" where
  "roundHalfEven q =
     (let f = \<lfloor>q\<rfloor>; r = q - of_int f
      in if r < 1 / 2 then f else if 1 / 2 < r then f + 1 else if even f then f else f + 1)"

text \<open>The double nearest to a rational: a significand of 53 binary digits, ties to the
  even significand (IEEE 754 binary64 without overflow and subnormal numbers). It is
  what \<^verbatim>\<open>Number("0.29")\<close> makes of a decimal and what every arithmetic operation
  makes of its exact result.\<close>

definition fl :: "rat \<Rightarrow> rat" where
  "fl x =
     (if x = 0 then 0
      else (let a = \<bar>x\<bar>; u = 2 powi (floorLog2 a - 52)
            in sgn x * of_int (roundHalfEven (a / u)) * u))"

definition jsAdd :: "rat \<Rightarrow> rat \<Rightarrow> rat" where
  "jsAdd x y = fl (x + y)"

definition jsSub :: "rat \<Rightarrow> rat \<Rightarrow> rat" where
  "jsSub x y = fl (x - y)"

definition jsMul :: "rat \<Rightarrow> rat \<Rightarrow> rat" where
  "jsMul x y = fl (x * y)"


subsection \<open>Documents\<close>

type_synonym timestamp = nat

text \<open>\<^verbatim>\<open>wallets/{uid}\<close>. The flows write \<^verbatim>\<open>uid\<close> and \<^verbatim>\<open>createdAt\<close> only in some
  places, so both are optional.\<close>

record wallet =
  uid :: "string option"
  balance :: rat
  currency :: string
  updatedAt :: timestamp
  createdAt :: "timestamp option"

text \<open>\<^verbatim>\<open>wallets/{uid}/transactions/{id}\<close>: one constructor for each \<^verbatim>\<open>type\<close> the code
  writes, with the fields written for it. Every entry is written with
  \<^verbatim>\<open>status: "SUCCESS"\<close> (and a top-up with \<^verbatim>\<open>provider: "PAYPAL"\<close>).\<close>

datatype txn =
    TOP_UP (tx_orderId: string) (tx_captureId: "string option")
      (tx_grossAmount: rat) (tx_grossCurrency: string)
      (tx_creditAmount: rat) (tx_creditCurrency: string)
      (tx_createdAt: timestamp) (tx_source: "string option")
  | TRANSFER_OUT (tx_counterparty: string) (tx_amount: rat) (tx_currency: string)
      (tx_note: "string option") (tx_createdAt: timestamp)
  | TRANSFER_IN (tx_counterparty: string) (tx_amount: rat) (tx_currency: string)
      (tx_note: "string option") (tx_createdAt: timestamp)
  | RIDE_PAYMENT (tx_rideId: string) (tx_counterparty: string) (tx_amount: rat)
      (tx_currency: string) (tx_platformFee: rat) (tx_payoutToDriver: rat)
      (tx_createdAt: timestamp)
  | RIDE_EARN (tx_rideId: string) (tx_counterparty: string) (tx_amount: rat)
      (tx_currency: string) (tx_platformFee: rat) (tx_createdAt: timestamp)

definition tx_status :: "txn \<Rightarrow> string" where
  "tx_status e = ''SUCCESS''"

text \<open>\<^verbatim>\<open>rides/{rideId}\<close>, the fields the settlement reads or writes:
  \<^verbatim>\<open>userId\<close>, \<^verbatim>\<open>status\<close>, \<^verbatim>\<open>driver.id\<close>, \<^verbatim>\<open>estimatedFareZAR\<close>,
  \<^verbatim>\<open>payment.status\<close>, \<^verbatim>\<open>payment.lastError\<close>, \<^verbatim>\<open>updatedAt\<close>.\<close>

record ride =
  ride_userId :: string
  ride_status :: string
  ride_driverId :: "string option"
  ride_estimatedFareZAR :: "rat option"
  ride_paymentStatus :: "string option"
  ride_paymentLastError :: "string option"
  ride_updatedAt :: "timestamp option"

record driver_live =
  occupied :: bool
  dl_updatedAt :: timestamp

record business =
  ownerId :: "string option"

record order =
  ord_businessId :: string
  ord_ownerId :: string
  ord_userId :: string
  ord_items :: "string list"
  ord_subtotal :: rat
  ord_total :: rat
  ord_deliveryAddress :: "string option"
  ord_status :: string
  ord_createdAt :: timestamp
  ord_updatedAt :: timestamp

text \<open>The database. A collection addressed by a known id is a map; a collection whose
  documents are created under generated ids (\<^verbatim>\<open>.doc()\<close>) is a list of pairs of id and
  document, in the order of creation.\<close>

record store =
  wallets :: "string \<rightharpoonup> wallet"
  transactions :: "string \<Rightarrow> (string \<times> txn) list"
  rides :: "string \<rightharpoonup> ride"
  drivers_live_col :: "string \<rightharpoonup> driver_live"
  businesses :: "string \<rightharpoonup> business"
  orders :: "(string \<times> order) list"

text \<open>What a call reads from its surroundings: \<^verbatim>\<open>Timestamp.now()\<close>,
  \<^verbatim>\<open>getBaseCurrency()\<close>, the variable \<^verbatim>\<open>APP_PLATFORM_FEE_RATE\<close> (as a number, when
  set) and the first two identifiers that \<^verbatim>\<open>.doc()\<close> generates during the call.\<close>

record runtime =
  rt_now :: timestamp
  rt_base :: string
  rt_feeRateEnv :: "rat option"
  rt_doc1 :: string
  rt_doc2 :: string

subsection \<open>Helpers\<close>

text \<open>\<^verbatim>\<open>uidOrThrow\<close>: the caller's uid, or \<^verbatim>\<open>unauthenticated\<close> when it is missing or
  empty.\<close>

definition uidOrThrow :: "string option \<Rightarrow> exn + string" where
  "uidOrThrow auth =
     (case auth of
        None \<Rightarrow> Inl (HttpsError Unauthenticated ''Not signed in.'')
      | Some u \<Rightarrow> if u = [] then Inl (HttpsError Unauthenticated ''Not signed in.'') else Inr u)"

text \<open>\<^verbatim>\<open>snap.exists ? Number(snap.get("balance") || 0) : 0\<close>\<close>

definition balanceOf :: "wallet option \<Rightarrow> rat" where
  "balanceOf snap = (case snap of None \<Rightarrow> 0 | Some w \<Rightarrow> balance w)"

text \<open>\<^verbatim>\<open>snap.exists ? (snap.get("createdAt") || now) : now\<close>\<close>

definition createdAtOr :: "wallet option \<Rightarrow> timestamp \<Rightarrow> timestamp" where
  "createdAtOr snap now =
     (case snap of
        None \<Rightarrow> now
      | Some w \<Rightarrow> (case createdAt w of None \<Rightarrow> now | Some c \<Rightarrow> c))"

text \<open>\<^verbatim>\<open>x || null\<close> on an optional string: the empty string is falsy.\<close>

definition orNull :: "string option \<Rightarrow> string option" where
  "orNull x = (case x of None \<Rightarrow> None | Some v \<Rightarrow> if v = [] then None else Some v)"

text \<open>The data of \<^verbatim>\<open>t.set(walletDoc(u), {...}, { merge: true })\<close>: fields left out keep the
  value the document has; the balance is a number or \<^verbatim>\<open>FieldValue.increment\<close>.\<close>

datatype balance_write = SetTo rat | Increment rat

record wallet_fields =
  f_uid :: "string option"
  f_balance :: balance_write
  f_currency :: string
  f_updatedAt :: timestamp
  f_createdAt :: "timestamp option"

definition merge_wallet :: "wallet option \<Rightarrow> wallet_fields \<Rightarrow> wallet" where
  "merge_wallet old f =
     \<lparr> uid = (case f_uid f of Some u \<Rightarrow> Some u
               | None \<Rightarrow> (case old of None \<Rightarrow> None | Some w \<Rightarrow> uid w)),
       balance = (case f_balance f of SetTo b \<Rightarrow> b | Increment d \<Rightarrow> balanceOf old + d),
       currency = f_currency f,
       updatedAt = f_updatedAt f,
       createdAt = (case f_createdAt f of Some c \<Rightarrow> Some c
               | None \<Rightarrow> (case old of None \<Rightarrow> None | Some w \<Rightarrow> createdAt w)) \<rparr>"

definition set_wallet :: "string \<Rightarrow> wallet_fields \<Rightarrow> store \<Rightarrow> store" where
  "set_wallet u f s = s\<lparr> wallets := (wallets s)(u \<mapsto> merge_wallet (wallets s u) f) \<rparr>"

text \<open>The SDK's \<^verbatim>\<open>collection.doc(path)\<close>. The path is split at its slashes, empty
  components at the ends dropped. The SDK throws when the path is empty or holds two
  slashes in a row, or when it has an even number of components (then it points to a
  collection, not to a document). A path of one component is the document of that id.\<close>

fun splitSlash :: "string \<Rightarrow> string list" where
  "splitSlash [] = [[]]"
| "splitSlash (c # cs) =
     (if c = CHR ''/'' then [] # splitSlash cs
      else (case splitSlash cs of [] \<Rightarrow> [[c]] | seg # segs \<Rightarrow> (c # seg) # segs))"

definition pathSegments :: "string \<Rightarrow> string list" where
  "pathSegments p = filter (\<lambda>seg. seg \<noteq> []) (splitSlash p)"

fun hasDoubleSlash :: "string \<Rightarrow> bool" where
  "hasDoubleSlash (a # b # cs) = ((a = CHR ''/'' \<and> b = CHR ''/'') \<or> hasDoubleSlash (b # cs))"
| "hasDoubleSlash cs = False"

definition docPath :: "string \<Rightarrow> exn + string list" where
  "docPath p =
     (if p = [] \<or> hasDoubleSlash p then Inl SdkError
      else if even (length (pathSegments p)) then Inl SdkError
      else Inr (pathSegments p))"

fun joinPath :: "string list \<Rightarrow> string" where
  "joinPath [] = []"
| "joinPath [seg] = seg"
| "joinPath (seg # segs) = seg @ ''/'' @ joinPath segs"

text \<open>\<^verbatim>\<open>walletDoc(uid)\<close>: the key under which the store holds the document that
  \<^verbatim>\<open>db.collection("wallets").doc(uid)\<close> points to, or the SDK's error.\<close>

definition walletDoc :: "string \<Rightarrow> exn + string" where
  "walletDoc u = (case docPath u of Inl e \<Rightarrow> Inl e | Inr segs \<Rightarrow> Inr (joinPath segs))"

text \<open>\<^verbatim>\<open>t.set(txCollection(u).doc(), entry)\<close>: a new document under the generated id.\<close>

definition add_tx :: "string \<Rightarrow> string \<Rightarrow> txn \<Rightarrow> store \<Rightarrow> store" where
  "add_tx u docId e s =
     s\<lparr> transactions := (transactions s)(u := transactions s u @ [(docId, e)]) \<rparr>"

text \<open>\<^verbatim>\<open>db.runTransaction(body)\<close>: the writes of a body that throws are not committed.
  Every body below reads before it writes, from the store as it was at the start.\<close>

definition runTransaction :: "(store \<Rightarrow> exn + store) \<Rightarrow> store \<Rightarrow> (exn + unit) \<times> store" where
  "runTransaction body s =
     (case body s of Inl e \<Rightarrow> (Inl e, s) | Inr s' \<Rightarrow> (Inr (), s'))"

subsection \<open>Peer transfer\<close>

text \<open>The request: \<^verbatim>\<open>amount\<close> is the double \<^verbatim>\<open>Number(amount)\<close>, \<open>None\<close> when that is
  \<^verbatim>\<open>NaN\<close> or the field is missing.\<close>

record transfer_request =
  tr_auth :: "string option"
  tr_toUid :: string
  tr_amount :: "rat option"
  tr_note :: "string option"

text \<open>The transaction body. Both wallet references are made first; then both wallets are
  read, the balance is tested, and the four documents are written.\<close>

definition transferFunds_body ::
  "runtime \<Rightarrow> string \<Rightarrow> string \<Rightarrow> rat \<Rightarrow> string option \<Rightarrow> store \<Rightarrow> exn + store" where
  "transferFunds_body rt fromUid toUid amt note s =
     (case walletDoc fromUid of
        Inl e \<Rightarrow> Inl e
      | Inr fromRef \<Rightarrow>
     (case walletDoc toUid of
        Inl e \<Rightarrow> Inl e
      | Inr toRef \<Rightarrow>
     (let fromSnap = wallets s fromRef;
          toSnap = wallets s toRef;
          fromBal = balanceOf fromSnap
      in if fromBal < amt then Inl (HttpsError FailedPrecondition ''Insufficient balance'')
         else Inr
           (add_tx toRef (rt_doc2 rt)
              (TRANSFER_IN fromUid amt (rt_base rt) (orNull note) (rt_now rt))
           (add_tx fromRef (rt_doc1 rt)
              (TRANSFER_OUT toUid amt (rt_base rt) (orNull note) (rt_now rt))
           (set_wallet toRef
              \<lparr> f_uid = Some toUid, f_balance = SetTo (jsAdd (balanceOf toSnap) amt),
                f_currency = rt_base rt, f_updatedAt = rt_now rt,
                f_createdAt = Some (createdAtOr toSnap (rt_now rt)) \<rparr>
           (set_wallet fromRef
              \<lparr> f_uid = Some fromUid, f_balance = SetTo (jsSub fromBal amt),
                f_currency = rt_base rt, f_updatedAt = rt_now rt,
                f_createdAt = Some (createdAtOr fromSnap (rt_now rt)) \<rparr>
            s)))))))"

definition transferFunds ::
  "runtime \<Rightarrow> transfer_request \<Rightarrow> store \<Rightarrow> (exn + string) \<times> store" where
  "transferFunds rt req s =
     (case uidOrThrow (tr_auth req) of
        Inl e \<Rightarrow> (Inl e, s)
      | Inr fromUid \<Rightarrow>
          if tr_toUid req = [] \<or> tr_toUid req = fromUid
          then (Inl (HttpsError InvalidArgument ''Invalid recipient''), s)
          else (case tr_amount req of
                  None \<Rightarrow> (Inl (HttpsError InvalidArgument ''amount must be > 0''), s)
                | Some amt \<Rightarrow>
                    if amt \<le> 0
                    then (Inl (HttpsError InvalidArgument ''amount must be > 0''), s)
                    else (case runTransaction
                                 (transferFunds_body rt fromUid (tr_toUid req) amt (tr_note req)) s of
                            (Inl e, s') \<Rightarrow> (Inl e, s')
                          | (Inr _, s') \<Rightarrow> (Inr ''SUCCESS'', s'))))"

subsection \<open>Ride-fare settlement\<close>

text \<open>\<^verbatim>\<open>Math.round\<close> rounds to the nearest integer, a half towards plus infinity.\<close>

definition Math_round :: "rat \<Rightarrow> rat" where
  "Math_round x = of_int \<lfloor>x + 1 / 2\<rfloor>"

text \<open>\<^verbatim>\<open>Number(process.env.APP_PLATFORM_FEE_RATE || "0.20")\<close>: the decimal that the
  variable holds, as a double; the default when it is unset or empty. A variable that
  holds no number makes the code compute with \<^verbatim>\<open>NaN\<close>; the model has no value for
  it.\<close>

definition feeRate :: "runtime \<Rightarrow> rat" where
  "feeRate rt = (case rt_feeRateEnv rt of None \<Rightarrow> fl (1 / 5) | Some r \<Rightarrow> fl r)"

text \<open>\<^verbatim>\<open>Math.max(0, Math.min(0.95, feeRate))\<close>\<close>

definition clampRate :: "rat \<Rightarrow> rat" where
  "clampRate rate = max 0 (min (fl (19 / 20)) rate)"

text \<open>\<^verbatim>\<open>Math.round(amount * Math.max(0, Math.min(0.95, feeRate)))\<close>\<close>

definition platformFee :: "rat \<Rightarrow> rat \<Rightarrow> rat" where
  "platformFee amount rate = Math_round (jsMul amount (clampRate rate))"

record ride_request =
  rr_auth :: "string option"
  rr_rideId :: string

text \<open>The early \<^verbatim>\<open>return\<close> of the transaction body: the ride is already settled.\<close>

definition alreadySettled :: "ride \<Rightarrow> bool" where
  "alreadySettled r \<longleftrightarrow>
     ride_paymentStatus r = Some ''authorized'' \<or> ride_status r = ''completed''"

definition payDriver_writes ::
  "runtime \<Rightarrow> string \<Rightarrow> string \<Rightarrow> string \<Rightarrow> ride \<Rightarrow> rat \<Rightarrow> store \<Rightarrow> store" where
  "payDriver_writes rt riderUid rideId driverId r amount s =
     (let rSnap = wallets s riderUid;
          dSnap = wallets s driverId;
          riderBal = balanceOf rSnap;
          fee = platformFee amount (feeRate rt);
          payout = jsSub amount fee;
          s1 = set_wallet riderUid
                 \<lparr> f_uid = None, f_balance = SetTo (jsSub riderBal amount),
                   f_currency = rt_base rt, f_updatedAt = rt_now rt,
                   f_createdAt = Some (createdAtOr rSnap (rt_now rt)) \<rparr> s;
          s2 = set_wallet driverId
                 \<lparr> f_uid = None, f_balance = SetTo (jsAdd (balanceOf dSnap) payout),
                   f_currency = rt_base rt, f_updatedAt = rt_now rt,
                   f_createdAt = Some (createdAtOr dSnap (rt_now rt)) \<rparr> s1;
          s3 = add_tx riderUid (rt_doc1 rt)
                 (RIDE_PAYMENT rideId driverId amount (rt_base rt) fee payout (rt_now rt)) s2;
          s4 = add_tx driverId (rt_doc2 rt)
                 (RIDE_EARN rideId riderUid payout (rt_base rt) fee (rt_now rt)) s3;
          s5 = s4\<lparr> rides := (rides s4)(rideId \<mapsto>
                 r\<lparr> ride_status := ''completed'',
                    ride_paymentStatus := Some ''authorized'',
                    ride_paymentLastError := None,
                    ride_updatedAt := Some (rt_now rt) \<rparr>) \<rparr>
      in s5\<lparr> drivers_live_col := (drivers_live_col s5)(driverId \<mapsto>
                 \<lparr> occupied = False, dl_updatedAt = rt_now rt \<rparr>) \<rparr>)"

definition payDriver_body :: "runtime \<Rightarrow> string \<Rightarrow> string \<Rightarrow> store \<Rightarrow> exn + store" where
  "payDriver_body rt riderUid rideId s =
     (case rides s rideId of
        None \<Rightarrow> Inl (HttpsError NotFound ''Ride not found'')
      | Some r \<Rightarrow>
          if alreadySettled r then Inr s
          else if ride_userId r \<noteq> riderUid
            then Inl (HttpsError PermissionDenied ''Not your ride.'')
          else if ride_status r \<noteq> ''on_trip''
            then Inl (HttpsError FailedPrecondition ''Ride must be on_trip'')
          else (case orNull (ride_driverId r) of
                  None \<Rightarrow> Inl (HttpsError FailedPrecondition ''No assigned driver.'')
                | Some driverId \<Rightarrow>
                    (let amount = (case ride_estimatedFareZAR r of None \<Rightarrow> 0 | Some a \<Rightarrow> a)
                     in if amount \<le> 0
                        then Inl (HttpsError FailedPrecondition ''Invalid fare amount.'')
                        else if balanceOf (wallets s riderUid) < amount
                        then Inl (HttpsError FailedPrecondition ''Insufficient rider balance.'')
                        else Inr (payDriver_writes rt riderUid rideId driverId r amount s))))"

text \<open>The result \<^verbatim>\<open>{ ok: true }\<close> is \<open>Inr True\<close>.\<close>

definition payDriverOnComplete ::
  "runtime \<Rightarrow> ride_request \<Rightarrow> store \<Rightarrow> (exn + bool) \<times> store" where
  "payDriverOnComplete rt req s =
     (case uidOrThrow (rr_auth req) of
        Inl e \<Rightarrow> (Inl e, s)
      | Inr riderUid \<Rightarrow>
          if rr_rideId req = [] then (Inl (HttpsError InvalidArgument ''rideId required''), s)
          else (case runTransaction (payDriver_body rt riderUid (rr_rideId req)) s of
                  (Inl e, s') \<Rightarrow> (Inl e, s')
                | (Inr _, s') \<Rightarrow> (Inr True, s')))"

subsection \<open>Order settlement\<close>

text \<open>The request: \<^verbatim>\<open>items\<close> is \<open>None\<close> when it is not an array, \<^verbatim>\<open>total\<close> is \<open>None\<close>
  when \<^verbatim>\<open>Number(total)\<close> is not finite.\<close>

record order_request =
  or_auth :: "string option"
  or_businessId :: string
  or_items :: "string list option"
  or_address :: "string option"
  or_total :: "rat option"

definition payAndPlaceOrder_body ::
  "runtime \<Rightarrow> string \<Rightarrow> string \<Rightarrow> string list \<Rightarrow> string option \<Rightarrow> rat \<Rightarrow> store \<Rightarrow> exn + store" where
  "payAndPlaceOrder_body rt buyer businessId items address amount s =
     (case businesses s businessId of
        None \<Rightarrow> Inl (HttpsError NotFound ''Business not found.'')
      | Some biz \<Rightarrow>
          (case orNull (ownerId biz) of
             None \<Rightarrow> Inl (HttpsError FailedPrecondition ''Business owner not set.'')
           | Some owner \<Rightarrow>
               (let buyerBal = balanceOf (wallets s buyer)
                in if buyerBal < amount
                   then Inl (HttpsError FailedPrecondition ''Insufficient funds.'')
                   else
                     (let s1 = set_wallet buyer
                                 \<lparr> f_uid = Some buyer, f_balance = SetTo (buyerBal - amount),
                                   f_currency = rt_base rt, f_updatedAt = rt_now rt,
                                   f_createdAt = None \<rparr> s;
                          s2 = set_wallet owner
                                 \<lparr> f_uid = Some owner, f_balance = Increment amount,
                                   f_currency = rt_base rt, f_updatedAt = rt_now rt,
                                   f_createdAt = None \<rparr> s1
                      in Inr (s2\<lparr> orders := orders s2 @
                                [(rt_doc1 rt,
                                  \<lparr> ord_businessId = businessId, ord_ownerId = owner,
                                    ord_userId = buyer, ord_items = items,
                                    ord_subtotal = amount, ord_total = amount,
                                    ord_deliveryAddress = orNull address,
                                    ord_status = ''paid'',
                                    ord_createdAt = rt_now rt,
                                    ord_updatedAt = rt_now rt \<rparr>)] \<rparr>)))))"

text \<open>The result \<^verbatim>\<open>{ orderId, status: "paid" }\<close> is the pair of the two.\<close>

definition payAndPlaceOrder ::
  "runtime \<Rightarrow> order_request \<Rightarrow> store \<Rightarrow> (exn + string \<times> string) \<times> store" where
  "payAndPlaceOrder rt req s =
     (case uidOrThrow (or_auth req) of
        Inl e \<Rightarrow> (Inl e, s)
      | Inr buyer \<Rightarrow>
          (case (or_items req, or_total req) of
             (Some items, Some amount) \<Rightarrow>
               if or_businessId req = [] \<or> amount \<le> 0
               then (Inl (HttpsError InvalidArgument ''Missing order fields.''), s)
               else (case runTransaction
                            (payAndPlaceOrder_body rt buyer (or_businessId req) items
                               (or_address req) amount) s of
                       (Inl e, s') \<Rightarrow> (Inl e, s')
                     | (Inr _, s') \<Rightarrow> (Inr (rt_doc1 rt, ''paid''), s'))
           | _ \<Rightarrow> (Inl (HttpsError InvalidArgument ''Missing order fields.''), s)))"

subsection \<open>Currency conversion\<close>

text \<open>\<^verbatim>\<open>String.prototype.toUpperCase\<close> on ASCII text (currency codes).\<close>

definition upperChar :: "char \<Rightarrow> char" where
  "upperChar c =
     (let n = (of_char c :: nat) in if 97 \<le> n \<and> n \<le> 122 then char_of (n - 32) else c)"

definition toUpperCase :: "string \<Rightarrow> string" where
  "toUpperCase s = map upperChar s"

text \<open>A \<^verbatim>\<open>fetch\<close> either rejects (the promise throws at its \<^verbatim>\<open>await\<close>) or resolves.\<close>

datatype 'a fetch = Rejects | Resolves 'a

text \<open>What \<^verbatim>\<open>tryGet\<close> returns for a rate provider: \<^verbatim>\<open>res.ok\<close>, and the number found
  in the parsed body at the place the provider puts its result
  (\<^verbatim>\<open>conversion_result\<close>, \<^verbatim>\<open>rates[to]\<close>, \<^verbatim>\<open>result\<close>); \<open>None\<close> when the body is not
  JSON or holds no number there.\<close>

record fx_response =
  fx_ok :: bool
  fx_number :: "rat option"

text \<open>The three providers as the call finds them, and the trimmed \<^verbatim>\<open>FX_API_KEY\<close>.\<close>

record fx_world =
  fxKey :: string
  v6 :: "fx_response fetch"
  frankfurter :: "fx_response fetch"
  exchangerate_host :: "fx_response fetch"

datatype provider = V6 | Frankfurter | ExchangerateHost

text \<open>A provider call inside \<^verbatim>\<open>try { ... } catch\<close>: a rejection is logged and the chain
  goes on; a result counts when the response is ok and the number is there.\<close>

definition guarded :: "fx_response fetch \<Rightarrow> rat option" where
  "guarded f =
     (case f of
        Rejects \<Rightarrow> None
      | Resolves r \<Rightarrow> if fx_ok r then fx_number r else None)"

text \<open>\<^verbatim>\<open>fxConvert\<close> returns its result (or the exception it throws) and the provider
  calls it made, in order.\<close>

definition fxConvert ::
  "fx_world \<Rightarrow> rat \<Rightarrow> string \<Rightarrow> string \<Rightarrow> (exn + rat) \<times> provider list" where
  "fxConvert w amount from to =
     (if toUpperCase from = toUpperCase to then (Inr amount, [])
      else
        (let first = (if fxKey w = [] then None else guarded (v6 w));
             calls1 = (if fxKey w = [] then [] else [V6])
         in case first of
              Some r \<Rightarrow> (Inr r, calls1)
            | None \<Rightarrow>
                (case guarded (frankfurter w) of
                   Some r \<Rightarrow> (Inr r, calls1 @ [Frankfurter])
                 | None \<Rightarrow>
                     (case exchangerate_host w of
                        Rejects \<Rightarrow> (Inl FetchError, calls1 @ [Frankfurter, ExchangerateHost])
                      | Resolves r \<Rightarrow>
                          (case fx_number r of
                             Some n \<Rightarrow> (Inr n, calls1 @ [Frankfurter, ExchangerateHost])
                           | None \<Rightarrow>
                               (Inr amount, calls1 @ [Frankfurter, ExchangerateHost]))))))"

subsection \<open>Gateway capture\<close>

text \<open>\<^verbatim>\<open>requireEnv\<close>\<close>

definition requireEnv :: "string \<Rightarrow> string option \<Rightarrow> exn + string" where
  "requireEnv name v =
     (case orNull v of
        None \<Rightarrow> Inl (HttpsError FailedPrecondition (''Missing secret: '' @ name))
      | Some x \<Rightarrow> Inr x)"

text \<open>The token endpoint's response: \<^verbatim>\<open>res.ok\<close>, the body as text, and
  \<^verbatim>\<open>access_token\<close>.\<close>

record token_response =
  tok_ok :: bool
  tok_text :: string
  tok_access_token :: string

text \<open>The first capture of the first purchase unit: its \<^verbatim>\<open>id\<close>, the decimal that
  \<^verbatim>\<open>amount.value\<close> spells (\<open>None\<close> when missing or empty) and
  \<^verbatim>\<open>amount.currency_code\<close>. \<^verbatim>\<open>Number(amount.value)\<close> is the double nearest to the
  decimal.\<close>

record capture_obj =
  cap_id :: "string option"
  cap_amount :: "rat option"
  cap_currency_code :: "string option"

text \<open>The capture endpoint's response: \<^verbatim>\<open>res.ok\<close>, \<^verbatim>\<open>status\<close>,
  \<^verbatim>\<open>purchase_units[0].custom_id\<close> and \<^verbatim>\<open>purchase_units[0].payments.captures[0]\<close>.\<close>

record capture_response =
  cr_ok :: bool
  cr_status :: "string option"
  cr_custom_id :: "string option"
  cr_capture :: "capture_obj option"

text \<open>The gateway and the rate providers as one call finds them.\<close>

record gateway =
  PAYPAL_CLIENT_ID :: "string option"
  PAYPAL_SECRET :: "string option"
  gw_token :: "token_response fetch"
  gw_capture :: "capture_response fetch"
  gw_fx :: fx_world

definition getPayPalAccessToken :: "gateway \<Rightarrow> exn + string" where
  "getPayPalAccessToken g =
     (case requireEnv ''PAYPAL_CLIENT_ID'' (PAYPAL_CLIENT_ID g) of
        Inl e \<Rightarrow> Inl e
      | Inr client \<Rightarrow>
          (case requireEnv ''PAYPAL_SECRET'' (PAYPAL_SECRET g) of
             Inl e \<Rightarrow> Inl e
           | Inr secret \<Rightarrow>
               (case gw_token g of
                  Rejects \<Rightarrow> Inl FetchError
                | Resolves res \<Rightarrow>
                    if tok_ok res then Inr (tok_access_token res)
                    else Inl (HttpsError Internal (''PayPal token error: '' @ tok_text res)))))"

text \<open>\<^verbatim>\<open>Number(x.toFixed(2))\<close>: the decimal with two places nearest to the exact value
  of the double \<open>x\<close>, a half away from zero, read back as a double.\<close>

definition toFixed2 :: "rat \<Rightarrow> rat" where
  "toFixed2 x =
     fl (if 0 \<le> x then of_int \<lfloor>x * 100 + 1 / 2\<rfloor> / 100
         else - (of_int \<lfloor>- x * 100 + 1 / 2\<rfloor> / 100))"

text \<open>The transaction of both capture routes: credit the wallet, write the
  \<^verbatim>\<open>TOP_UP\<close> entry.\<close>

definition credit_body ::
  "runtime \<Rightarrow> string \<Rightarrow> string \<Rightarrow> string option \<Rightarrow> rat \<Rightarrow> string \<Rightarrow> rat \<Rightarrow>
     string option \<Rightarrow> store \<Rightarrow> exn + store" where
  "credit_body rt u orderId captureId gross grossCurrency credit src s =
     (case walletDoc u of
        Inl e \<Rightarrow> Inl e
      | Inr wRef \<Rightarrow>
     (let wSnap = wallets s wRef;
          prev = balanceOf wSnap
      in Inr
           (add_tx wRef (rt_doc1 rt)
              (TOP_UP orderId captureId gross grossCurrency credit (rt_base rt) (rt_now rt) src)
           (set_wallet wRef
              \<lparr> f_uid = Some u, f_balance = SetTo (jsAdd prev credit),
                f_currency = rt_base rt, f_updatedAt = rt_now rt,
                f_createdAt = Some (createdAtOr wSnap (rt_now rt)) \<rparr>
            s))))"

text \<open>\<^verbatim>\<open>grossCurrency === base ? gross : await fxConvert(gross, grossCurrency, base)\<close>\<close>

definition toBase :: "gateway \<Rightarrow> runtime \<Rightarrow> rat \<Rightarrow> string \<Rightarrow> exn + rat" where
  "toBase g rt gross grossCurrency =
     (if grossCurrency = rt_base rt then Inr gross
      else fst (fxConvert (gw_fx g) gross grossCurrency (rt_base rt)))"

record capture_request =
  cq_auth :: "string option"
  cq_orderId :: string

text \<open>The result of the callable: \<^verbatim>\<open>credited\<close>, \<^verbatim>\<open>currency\<close> and \<^verbatim>\<open>paypal.id\<close>
  (\<^verbatim>\<open>status\<close> is \<^verbatim>\<open>"SUCCESS"\<close>, \<^verbatim>\<open>paypal.orderId\<close> the request's). An error
  message that quotes the gateway's response body is kept up to the quotation; the guest
  route's error body that is the response body itself is the text \<open>capBody\<close>.\<close>

record capture_result =
  res_credited :: rat
  res_currency :: string
  res_paypal_id :: "string option"

definition capturePayPalOrder ::
  "gateway \<Rightarrow> runtime \<Rightarrow> capture_request \<Rightarrow> store \<Rightarrow> (exn + capture_result) \<times> store" where
  "capturePayPalOrder g rt req s =
     (case uidOrThrow (cq_auth req) of
        Inl e \<Rightarrow> (Inl e, s)
      | Inr u \<Rightarrow>
          if cq_orderId req = [] then (Inl (HttpsError InvalidArgument ''orderId required''), s)
          else (case getPayPalAccessToken g of
             Inl e \<Rightarrow> (Inl e, s)
           | Inr token \<Rightarrow>
          (case gw_capture g of
             Rejects \<Rightarrow> (Inl FetchError, s)
           | Resolves capRes \<Rightarrow>
          if cr_ok capRes \<and> cr_status capRes = Some ''COMPLETED'' then
          (case cr_capture capRes of
             None \<Rightarrow> (Inl (HttpsError Internal ''Missing capture amount''), s)
           | Some capture \<Rightarrow>
          (case (cap_amount capture, orNull (cap_currency_code capture)) of
             (Some amountValue, Some ccy) \<Rightarrow>
               (let gross = fl amountValue;
                    grossCurrency = toUpperCase ccy in
                case toBase g rt gross grossCurrency of
                  Inl e \<Rightarrow> (Inl e, s)
                | Inr credit \<Rightarrow>
                    (case runTransaction
                            (credit_body rt u (cq_orderId req) (orNull (cap_id capture))
                               gross grossCurrency credit None) s of
                       (Inl e, s') \<Rightarrow> (Inl e, s')
                     | (Inr _, s') \<Rightarrow>
                         (Inr \<lparr> res_credited = toFixed2 credit, res_currency = rt_base rt,
                                res_paypal_id = cap_id capture \<rparr>, s')))
           | _ \<Rightarrow> (Inl (HttpsError Internal ''Missing capture amount''), s)))
          else (Inl (HttpsError Internal ''PayPal capture error''), s))))"

text \<open>The guest route answers over HTTP: a status code and a JSON body, either
  \<^verbatim>\<open>{ ok: true, credited, currency }\<close> or \<^verbatim>\<open>{ ok: false, error }\<close>.\<close>

datatype guest_body = Credited rat string | Failed string

record http_response =
  http_status :: nat
  http_body :: guest_body

text \<open>\<^verbatim>\<open>e?.message || "server_error"\<close> in the route's \<^verbatim>\<open>catch\<close>.\<close>

definition exnMessage :: "exn \<Rightarrow> string" where
  "exnMessage e =
     (case e of
        HttpsError c m \<Rightarrow> if m = [] then ''server_error'' else m
      | FetchError \<Rightarrow> ''fetch failed''
      | SdkError \<Rightarrow> ''invalid argument'')"

text \<open>\<^verbatim>\<open>Number(capture?.amount?.value || 0)\<close>,
  \<^verbatim>\<open>String(capture?.amount?.currency_code || "USD").toUpperCase()\<close> and
  \<^verbatim>\<open>capture?.id || null\<close> of the guest route.\<close>

definition guestGross :: "capture_response \<Rightarrow> rat" where
  "guestGross capRes =
     (case cr_capture capRes of
        None \<Rightarrow> 0
      | Some c \<Rightarrow> (case cap_amount c of None \<Rightarrow> 0 | Some v \<Rightarrow> fl v))"

definition guestCurrency :: "capture_response \<Rightarrow> string" where
  "guestCurrency capRes =
     toUpperCase
       (case cr_capture capRes of
          None \<Rightarrow> ''USD''
        | Some c \<Rightarrow> (case orNull (cap_currency_code c) of None \<Rightarrow> ''USD'' | Some x \<Rightarrow> x))"

definition guestCaptureId :: "capture_response \<Rightarrow> string option" where
  "guestCaptureId capRes =
     (case cr_capture capRes of None \<Rightarrow> None | Some c \<Rightarrow> orNull (cap_id c))"

definition guestCapture ::
  "gateway \<Rightarrow> runtime \<Rightarrow> string \<Rightarrow> store \<Rightarrow> http_response \<times> store" where
  "guestCapture g rt orderId s =
     (if orderId = [] then (\<lparr> http_status = 400, http_body = Failed ''orderId required'' \<rparr>, s)
      else (case getPayPalAccessToken g of
         Inl e \<Rightarrow> (\<lparr> http_status = 500, http_body = Failed (exnMessage e) \<rparr>, s)
       | Inr token \<Rightarrow>
      (case gw_capture g of
         Rejects \<Rightarrow> (\<lparr> http_status = 500, http_body = Failed (exnMessage FetchError) \<rparr>, s)
       | Resolves capRes \<Rightarrow>
      if cr_ok capRes \<and> cr_status capRes = Some ''COMPLETED'' then
      (case orNull (cr_custom_id capRes) of
         None \<Rightarrow>
           (\<lparr> http_status = 500, http_body = Failed ''Missing recipientUid in custom_id'' \<rparr>, s)
       | Some recipientUid \<Rightarrow>
           (let gross = guestGross capRes;
                grossCurrency = guestCurrency capRes;
                captureId = guestCaptureId capRes
            in case toBase g rt gross grossCurrency of
                 Inl e \<Rightarrow> (\<lparr> http_status = 500, http_body = Failed (exnMessage e) \<rparr>, s)
               | Inr credit \<Rightarrow>
                   (case runTransaction
                           (credit_body rt recipientUid orderId captureId gross grossCurrency
                              credit (Some ''GUEST'')) s of
                      (Inl e, s') \<Rightarrow>
                        (\<lparr> http_status = 500, http_body = Failed (exnMessage e) \<rparr>, s')
                    | (Inr _, s') \<Rightarrow>
                        (\<lparr> http_status = 200,
                           http_body = Credited (toFixed2 credit) (rt_base rt) \<rparr>, s'))))
      else (\<lparr> http_status = 500, http_body = Failed ''capBody'' \<rparr>, s))))"

subsection \<open>Transaction history\<close>










subsection \<open>Example data\<close>

text \<open>A small database and the surroundings of two successive calls, used to run the
  functions on concrete inputs.\<close>

definition ex_rt :: runtime where
  "ex_rt = \<lparr> rt_now = 1000, rt_base = ''ZAR'', rt_feeRateEnv = None,
             rt_doc1 = ''doc-a'', rt_doc2 = ''doc-b'' \<rparr>"

definition ex_rt2 :: runtime where
  "ex_rt2 = \<lparr> rt_now = 2000, rt_base = ''ZAR'', rt_feeRateEnv = None,
              rt_doc1 = ''doc-c'', rt_doc2 = ''doc-d'' \<rparr>"

definition ex_wallet :: "string \<Rightarrow> rat \<Rightarrow> wallet" where
  "ex_wallet u b =
     \<lparr> uid = Some u, balance = b, currency = ''ZAR'', updatedAt = 10, createdAt = Some 10 \<rparr>"

definition ex_ride :: "string \<Rightarrow> ride" where
  "ex_ride st =
     \<lparr> ride_userId = ''alice'', ride_status = st, ride_driverId = Some ''dave'',
       ride_estimatedFareZAR = Some 100, ride_paymentStatus = None,
       ride_paymentLastError = None, ride_updatedAt = None \<rparr>"

text \<open>Alice holds 100; ride \<open>r1\<close> is hers and on trip with driver Dave at a fare of 100;
  ride \<open>r2\<close> is hers and completed; the shop belongs to Carol.\<close>

definition ex_store :: store where
  "ex_store =
     \<lparr> wallets = [''alice'' \<mapsto> ex_wallet ''alice'' 100],
       transactions = (\<lambda>u. []),
       rides = [''r1'' \<mapsto> ex_ride ''on_trip'', ''r2'' \<mapsto> ex_ride ''completed''],
       drivers_live_col = Map.empty,
       businesses = [''shop'' \<mapsto> \<lparr> ownerId = Some ''carol'' \<rparr>],
       orders = [] \<rparr>"

definition ex_transfer :: "rat \<Rightarrow> transfer_request" where
  "ex_transfer a =
     \<lparr> tr_auth = Some ''alice'', tr_toUid = ''bob'', tr_amount = Some a, tr_note = None \<rparr>"

definition ex_settle :: "string \<Rightarrow> string \<Rightarrow> ride_request" where
  "ex_settle caller rid = \<lparr> rr_auth = Some caller, rr_rideId = rid \<rparr>"

definition ex_order :: order_request where
  "ex_order =
     \<lparr> or_auth = Some ''alice'', or_businessId = ''shop'', or_items = Some [''bread''],
       or_address = None, or_total = Some 30 \<rparr>"

text \<open>A world in which no rate provider can be reached: no key for the first, the other
  two reject.\<close>

definition ex_fx_down :: fx_world where
  "ex_fx_down =
     \<lparr> fxKey = [], v6 = Rejects, frankfurter = Rejects, exchangerate_host = Rejects \<rparr>"

text \<open>A gateway that reports capture \<open>CAP-1\<close> of 50 ZAR as completed, for recipient
  Alice.\<close>

definition ex_gateway :: gateway where
  "ex_gateway =
     \<lparr> PAYPAL_CLIENT_ID = Some ''id'', PAYPAL_SECRET = Some ''secret'',
       gw_token = Resolves \<lparr> tok_ok = True, tok_text = [], tok_access_token = ''tok'' \<rparr>,
       gw_capture = Resolves
         \<lparr> cr_ok = True, cr_status = Some ''COMPLETED'', cr_custom_id = Some ''alice'',
           cr_capture = Some \<lparr> cap_id = Some ''CAP-1'', cap_amount = Some 50,
                                cap_currency_code = Some ''ZAR'' \<rparr> \<rparr>,
       gw_fx = ex_fx_down \<rparr>"

definition ex_capture :: capture_request where
  "ex_capture = \<lparr> cq_auth = Some ''alice'', cq_orderId = ''ORDER-1'' \<rparr>"

text \<open>The entries of the ledger that carry a given capture id.\<close>

fun hasCaptureId :: "string \<Rightarrow> string \<times> txn \<Rightarrow> bool" where
  "hasCaptureId c (i, TOP_UP orderId captureId gross gc credit cc t src) = (captureId = Some c)"
| "hasCaptureId c (i, e) = False"

definition entriesOfCapture :: "string \<Rightarrow> (string \<times> txn) list \<Rightarrow> (string \<times> txn) list" where
  "entriesOfCapture c docs = filter (hasCaptureId c) docs"

text \<open>The store after one capture of the example, and after a replay of it.\<close>

definition ex_captured_once :: store where
  "ex_captured_once = snd (capturePayPalOrder ex_gateway ex_rt ex_capture ex_store)"

definition ex_captured_twice :: store where
  "ex_captured_twice = snd (capturePayPalOrder ex_gateway ex_rt2 ex_capture ex_captured_once)"




text \<open>Ride \<open>r3\<close> is Alice's, on trip at a fare of 100, and its driver is Alice herself.\<close>

definition ex_store_self :: store where
  "ex_store_self =
     ex_store\<lparr> rides := [''r3'' \<mapsto> (ex_ride ''on_trip'')\<lparr> ride_driverId := Some ''alice'' \<rparr>] \<rparr>"

text \<open>A recipient whose balance is \<open>10^17\<close>, where neighbouring doubles are 16 apart.\<close>

definition ex_store_large :: store where
  "ex_store_large =
     ex_store\<lparr> wallets := (wallets ex_store)(''bob'' \<mapsto> ex_wallet ''bob'' 100000000000000000) \<rparr>"

section \<open>Properties\<close>

subsection \<open>Auxiliary facts\<close>












text \<open>A settlement that went through its writes leaves the ride marked as settled.\<close>

lemma payDriver_writes_rides:
  "rides (payDriver_writes rt riderUid rideId driverId r amount s) rideId =
     Some (r\<lparr> ride_status := ''completed'', ride_paymentStatus := Some ''authorized'',
              ride_paymentLastError := None, ride_updatedAt := Some (rt_now rt) \<rparr>)"
  by (simp add: payDriver_writes_def Let_def set_wallet_def add_tx_def)

lemma payDriver_body_settles:
  assumes "payDriver_body rt riderUid rideId s = Inr s1"
  shows "\<exists>r. rides s1 rideId = Some r \<and> alreadySettled r"
proof (cases "rides s rideId")
  case None
  with assms show ?thesis by (simp add: payDriver_body_def)
next
  case (Some r)
  show ?thesis
  proof (cases "alreadySettled r")
    case True
    with assms Some show ?thesis by (simp add: payDriver_body_def)
  next
    case False
    with assms Some obtain driverId amount where
      "s1 = payDriver_writes rt riderUid rideId driverId r amount s"
      by (auto simp: payDriver_body_def Let_def split: if_splits option.splits)
    then show ?thesis
      by (simp add: payDriver_writes_rides alreadySettled_def)
  qed
qed

lemma payDriver_body_settled:
  "rides s rideId = Some r \<Longrightarrow> alreadySettled r \<Longrightarrow> payDriver_body rt caller rideId s = Inr s"
  by (simp add: payDriver_body_def)

subsection \<open>The claims\<close>

text \<open>
  C1. Every balance mutation of a settlement flow is paired with one ledger entry written
  in the same transaction; in particular \<^verbatim>\<open>payAndPlaceOrder\<close> writes one entry for the
  buyer's debit and one for the owner's credit.

  The code does not do this. An order that passes every check debits the buyer by the
  total, credits the business owner by the total and creates the order document, and
  leaves the transaction collections of all wallets as they were: the transaction body
  never writes to \<^verbatim>\<open>txCollection\<close>, which \<^verbatim>\<open>transferFunds\<close> and
  \<^verbatim>\<open>payDriverOnComplete\<close> do for each of their two balance writes.
\<close>

theorem payAndPlaceOrder_writes_no_ledger_entry:
  assumes "or_auth req = Some buyer" and "buyer \<noteq> []"
    and "or_businessId req = bid" and "bid \<noteq> []"
    and "or_items req = Some items" and "or_total req = Some amount" and "0 < amount"
    and "businesses s bid = Some biz" and "ownerId biz = Some owner"
    and "owner \<noteq> []" and "owner \<noteq> buyer"
    and "amount \<le> balanceOf (wallets s buyer)"
  shows "\<exists>s'. payAndPlaceOrder rt req s = (Inr (rt_doc1 rt, ''paid''), s') \<and>
           balanceOf (wallets s' buyer) = balanceOf (wallets s buyer) - amount \<and>
           balanceOf (wallets s' owner) = balanceOf (wallets s owner) + amount \<and>
           length (orders s') = Suc (length (orders s)) \<and>
           transactions s' = transactions s"
  using assms
  by (simp add: payAndPlaceOrder_def payAndPlaceOrder_body_def uidOrThrow_def orNull_def
      runTransaction_def set_wallet_def merge_wallet_def balanceOf_def Let_def)

theorem payAndPlaceOrder_writes_no_ledger_entry_witness:
  "fst (payAndPlaceOrder ex_rt ex_order ex_store) = Inr (''doc-a'', ''paid'') \<and>
   balanceOf (wallets (snd (payAndPlaceOrder ex_rt ex_order ex_store)) ''alice'') = 70 \<and>
   balanceOf (wallets (snd (payAndPlaceOrder ex_rt ex_order ex_store)) ''carol'') = 30 \<and>
   transactions (snd (payAndPlaceOrder ex_rt ex_order ex_store)) ''alice'' = [] \<and>
   transactions (snd (payAndPlaceOrder ex_rt ex_order ex_store)) ''carol'' = []"
proof -
  from payAndPlaceOrder_writes_no_ledger_entry
         [of ex_order "''alice''" "''shop''" "[''bread'']" 30 ex_store
             "\<lparr> ownerId = Some ''carol'' \<rparr>" "''carol''" ex_rt]
  obtain s' where "payAndPlaceOrder ex_rt ex_order ex_store = (Inr (rt_doc1 ex_rt, ''paid''), s')"
    and "balanceOf (wallets s' ''alice'') = balanceOf (wallets ex_store ''alice'') - 30"
    and "balanceOf (wallets s' ''carol'') = balanceOf (wallets ex_store ''carol'') + 30"
    and "transactions s' = transactions ex_store"
    by (auto simp: ex_order_def ex_store_def ex_wallet_def balanceOf_def)
  then show ?thesis
    by (simp add: ex_rt_def ex_store_def ex_wallet_def balanceOf_def)
qed

text \<open>
  C6. Ride settlement is idempotent. When a call of \<^verbatim>\<open>payDriverOnComplete\<close> has
  returned success, a second call for the same ride, at any later time, returns
  success as well and gives back the store unchanged: no balance moves and no second
  pair of \<^verbatim>\<open>RIDE_PAYMENT\<close> and \<^verbatim>\<open>RIDE_EARN\<close> entries is written. The marker is
  read from the ride document inside the transaction of the second call.
\<close>

theorem payDriverOnComplete_idempotent:
  assumes "payDriverOnComplete rt req s = (Inr True, s1)"
  shows "payDriverOnComplete rt' req s1 = (Inr True, s1)"
proof -
  from assms obtain caller where auth: "uidOrThrow (rr_auth req) = Inr caller"
    by (auto simp: payDriverOnComplete_def split: sum.splits)
  from assms auth have rid: "rr_rideId req \<noteq> []"
    by (auto simp: payDriverOnComplete_def split: if_splits)
  from assms auth rid have "payDriver_body rt caller (rr_rideId req) s = Inr s1"
    by (auto simp: payDriverOnComplete_def runTransaction_def split: sum.splits)
  then obtain r where "rides s1 (rr_rideId req) = Some r" and "alreadySettled r"
    using payDriver_body_settles by blast
  then have "payDriver_body rt' caller (rr_rideId req) s1 = Inr s1"
    by (rule payDriver_body_settled)
  with auth rid show ?thesis
    by (simp add: payDriverOnComplete_def runTransaction_def)
qed

theorem payDriverOnComplete_idempotent_witness:
  "fst (payDriverOnComplete ex_rt (ex_settle ''alice'' ''r1'') ex_store) = Inr True \<and>
   balanceOf (wallets (snd (payDriverOnComplete ex_rt (ex_settle ''alice'' ''r1'') ex_store))
     ''dave'') = 80 \<and>
   payDriverOnComplete ex_rt2 (ex_settle ''alice'' ''r1'')
       (snd (payDriverOnComplete ex_rt (ex_settle ''alice'' ''r1'') ex_store)) =
     (Inr True, snd (payDriverOnComplete ex_rt (ex_settle ''alice'' ''r1'') ex_store))"
proof -
  have ok: "fst (payDriverOnComplete ex_rt (ex_settle ''alice'' ''r1'') ex_store) = Inr True"
    by code_simp
  have paid: "balanceOf (wallets (snd (payDriverOnComplete ex_rt (ex_settle ''alice'' ''r1'')
      ex_store)) ''dave'') = 80"
    by code_simp
  from ok have "payDriverOnComplete ex_rt (ex_settle ''alice'' ''r1'') ex_store =
      (Inr True, snd (payDriverOnComplete ex_rt (ex_settle ''alice'' ''r1'') ex_store))"
    by (metis prod.collapse)
  then have "payDriverOnComplete ex_rt2 (ex_settle ''alice'' ''r1'')
       (snd (payDriverOnComplete ex_rt (ex_settle ''alice'' ''r1'') ex_store)) =
     (Inr True, snd (payDriverOnComplete ex_rt (ex_settle ''alice'' ''r1'') ex_store))"
    by (rule payDriverOnComplete_idempotent)
  with ok paid show ?thesis by blast
qed


text \<open>
  C7. With different currencies, \<^verbatim>\<open>fxConvert\<close> returns the first number it gets from
  the first, second and third provider in that order, and when every provider fails,
  also by throwing, it returns the amount unchanged and raises no error.

  The code does not do this when the third provider throws. The first two calls stand
  inside \<^verbatim>\<open>try ... catch\<close>; the third does not, so when the first provider is
  skipped or gives no result, the second gives none and the request to the third is
  rejected, \<^verbatim>\<open>fxConvert\<close> throws the rejection instead of returning the amount.
\<close>

theorem fxConvert_throws_when_last_provider_rejects:
  assumes "toUpperCase from \<noteq> toUpperCase to"
    and "fxKey w = [] \<or> guarded (v6 w) = None"
    and "guarded (frankfurter w) = None"
    and "exchangerate_host w = Rejects"
  shows "fst (fxConvert w amount from to) = Inl FetchError"
  using assms by (auto simp: fxConvert_def Let_def)

theorem fxConvert_throws_when_last_provider_rejects_witness:
  "toUpperCase ''EUR'' \<noteq> toUpperCase ''ZAR'' \<and>
   fxConvert ex_fx_down 50 ''EUR'' ''ZAR'' = (Inl FetchError, [Frankfurter, ExchangerateHost])"
proof -
  have differ: "toUpperCase ''EUR'' \<noteq> toUpperCase ''ZAR''"
    by code_simp
  have calls: "snd (fxConvert ex_fx_down 50 ''EUR'' ''ZAR'') = [Frankfurter, ExchangerateHost]"
    by code_simp
  have "fst (fxConvert ex_fx_down 50 ''EUR'' ''ZAR'') = Inl FetchError"
    by (rule fxConvert_throws_when_last_provider_rejects [OF differ])
       (simp_all add: ex_fx_down_def guarded_def)
  with differ calls show ?thesis
    by (metis prod.collapse)
qed

text \<open>When the request to the third provider resolves, the chain is as the claim has it:
  the first number of a provider that answered ok (the third one's also when not ok),
  or else the amount.\<close>

lemma fxConvert_chain_when_last_provider_resolves:
  assumes "toUpperCase from \<noteq> toUpperCase to" and "exchangerate_host w = Resolves r3"
  shows "fst (fxConvert w amount from to) =
           Inr (case (if fxKey w = [] then None else guarded (v6 w)) of
                  Some n \<Rightarrow> n
                | None \<Rightarrow> (case guarded (frankfurter w) of
                             Some n \<Rightarrow> n
                           | None \<Rightarrow> (case fx_number r3 of Some n \<Rightarrow> n | None \<Rightarrow> amount)))"
  using assms by (simp add: fxConvert_def Let_def split: option.splits)

text \<open>
  C8. Converting an amount from a currency to the same currency returns the amount
  unchanged and calls no provider, for every amount, every currency code and every
  state of the providers.
\<close>

theorem fxConvert_same_currency:
  "fxConvert w amount X X = (Inr amount, [])"
  by (simp add: fxConvert_def)

theorem fxConvert_same_currency_witness:
  "fxConvert ex_fx_down 50 ''USD'' ''USD'' = (Inr 50, [])"
  by (rule fxConvert_same_currency)

text \<open>
  C10. In \<^verbatim>\<open>payDriverOnComplete\<close> the test for an already settled ride comes before
  the tests of ownership, ride status and assigned driver. So for every signed-in
  caller, whoever owns the ride and whatever its driver, a call for a ride whose status
  is \<^verbatim>\<open>completed\<close> or whose payment status is \<^verbatim>\<open>authorized\<close> returns
  \<^verbatim>\<open>{ ok: true }\<close> and changes nothing; it does not fail with
  \<^verbatim>\<open>permission-denied\<close> or \<^verbatim>\<open>failed-precondition\<close>.
\<close>

theorem payDriverOnComplete_settled_for_any_caller:
  assumes "rr_auth req = Some caller" and "caller \<noteq> []" and "rr_rideId req \<noteq> []"
    and "rides s (rr_rideId req) = Some r"
    and "ride_status r = ''completed'' \<or> ride_paymentStatus r = Some ''authorized''"
  shows "payDriverOnComplete rt req s = (Inr True, s)"
  using assms
  by (auto simp: payDriverOnComplete_def uidOrThrow_def runTransaction_def payDriver_body_def
      alreadySettled_def)

text \<open>Mallory does not own ride \<open>r2\<close>, which is completed, and gets success; on ride
  \<open>r1\<close>, which is on trip, the same caller gets \<^verbatim>\<open>permission-denied\<close>.\<close>

theorem payDriverOnComplete_settled_for_any_caller_witness:
  "ride_userId (ex_ride ''completed'') \<noteq> ''mallory'' \<and>
   payDriverOnComplete ex_rt (ex_settle ''mallory'' ''r2'') ex_store = (Inr True, ex_store) \<and>
   payDriverOnComplete ex_rt (ex_settle ''mallory'' ''r1'') ex_store =
     (Inl (HttpsError PermissionDenied ''Not your ride.''), ex_store)"
proof -
  have other: "ride_userId (ex_ride ''completed'') \<noteq> ''mallory''"
    by (simp add: ex_ride_def)
  have settled: "payDriverOnComplete ex_rt (ex_settle ''mallory'' ''r2'') ex_store =
      (Inr True, ex_store)"
    by (rule payDriverOnComplete_settled_for_any_caller
          [where caller = "''mallory''" and r = "ex_ride ''completed''"])
       (simp_all add: ex_settle_def ex_store_def ex_ride_def)
  have denied: "payDriverOnComplete ex_rt (ex_settle ''mallory'' ''r1'') ex_store =
     (Inl (HttpsError PermissionDenied ''Not your ride.''), ex_store)"
    by (simp add: payDriverOnComplete_def uidOrThrow_def runTransaction_def payDriver_body_def
        alreadySettled_def ex_settle_def ex_store_def ex_ride_def)
  from other settled denied show ?thesis by blast
qed


subsection \<open>Document ids and doubles\<close>

text \<open>An id without a slash names the document of that id.\<close>

lemma splitSlash_plain: "CHR ''/'' \<notin> set u \<Longrightarrow> splitSlash u = [u]"
  by (induction u) auto

lemma hasDoubleSlash_plain: "CHR ''/'' \<notin> set u \<Longrightarrow> \<not> hasDoubleSlash u"
  by (induction u rule: hasDoubleSlash.induct) auto

lemma docPath_plain: "u \<noteq> [] \<Longrightarrow> CHR ''/'' \<notin> set u \<Longrightarrow> docPath u = Inr [u]"
  by (simp add: docPath_def pathSegments_def splitSlash_plain hasDoubleSlash_plain)

lemma walletDoc_plain: "u \<noteq> [] \<Longrightarrow> CHR ''/'' \<notin> set u \<Longrightarrow> walletDoc u = Inr u"
  by (simp add: walletDoc_def docPath_plain)


subsection \<open>Peer transfer\<close>

text \<open>
  C2. When the sender's balance, read inside the transaction, is below the amount,
  \<^verbatim>\<open>transferFunds\<close> fails with \<^verbatim>\<open>failed-precondition\<close> and commits nothing: the
  store that comes back is the store that went in, so both balances are unchanged
  and no ledger entry is written. The balance is read when the request has passed the
  checks made before the transaction (a signed-in caller, a recipient other than the
  caller, a positive amount) and both ids point to wallet documents.
\<close>

theorem transferFunds_insufficient:
  assumes "tr_auth req = Some fromUid" and "fromUid \<noteq> []"
    and "tr_toUid req = toUid" and "toUid \<noteq> []" and "toUid \<noteq> fromUid"
    and "walletDoc fromUid = Inr fromRef" and "walletDoc toUid = Inr toRef"
    and "tr_amount req = Some amt" and "0 < amt"
    and "balanceOf (wallets s fromRef) < amt"
  shows "transferFunds rt req s =
           (Inl (HttpsError FailedPrecondition ''Insufficient balance''), s)"
  using assms
  by (simp add: transferFunds_def uidOrThrow_def runTransaction_def transferFunds_body_def)

theorem transferFunds_insufficient_witness:
  "walletDoc ''alice'' = Inr ''alice'' \<and> walletDoc ''bob'' = Inr ''bob'' \<and>
   balanceOf (wallets ex_store ''alice'') < 140 \<and>
   transferFunds ex_rt (ex_transfer 140) ex_store =
     (Inl (HttpsError FailedPrecondition ''Insufficient balance''), ex_store)"
proof -
  have a: "walletDoc ''alice'' = Inr ''alice''" by (simp add: walletDoc_plain)
  have b: "walletDoc ''bob'' = Inr ''bob''" by (simp add: walletDoc_plain)
  have low: "balanceOf (wallets ex_store ''alice'') < 140"
    by (simp add: ex_store_def ex_wallet_def balanceOf_def)
  have "transferFunds ex_rt (ex_transfer 140) ex_store =
          (Inl (HttpsError FailedPrecondition ''Insufficient balance''), ex_store)"
    by (rule transferFunds_insufficient[where fromUid = "''alice''" and toUid = "''bob''"
          and fromRef = "''alice''" and toRef = "''bob''" and amt = 140])
       (simp_all add: ex_transfer_def low a b)
  with a b low show ?thesis by simp
qed

text \<open>A recipient id of two components points to no document: the SDK throws before the
  balance is read, and nothing is written either.\<close>

lemma walletDoc_two_components: "walletDoc ''b/c'' = Inl SdkError"
  by code_simp

lemma transferFunds_recipient_not_a_document:
  "transferFunds ex_rt ((ex_transfer 140)\<lparr> tr_toUid := ''b/c'' \<rparr>) ex_store =
     (Inl SdkError, ex_store)"
  by (simp add: transferFunds_def uidOrThrow_def runTransaction_def transferFunds_body_def
      ex_transfer_def walletDoc_plain walletDoc_two_components)



text \<open>Without the last condition the recipient gains what the addition of doubles
  gives: at a balance of \<open>10^17\<close> that is 32.\<close>

lemma transferFunds_beyond_exact_range:
  "balanceOf (wallets ex_store_large ''bob'') = 100000000000000000 \<and>
   balanceOf (wallets (snd (transferFunds ex_rt (ex_transfer 40) ex_store_large)) ''bob'') =
     100000000000000032"
  by code_simp

subsection \<open>Transaction history\<close>






subsection \<open>Gateway capture\<close>

text \<open>
  C3. Before crediting, the capture flow looks for a ledger entry with the capture id and
  skips the credit when there is one, so a replayed capture credits at most once.

  The code has no such check in either capture route. What holds instead: when the
  gateway answers a capture request with \<^verbatim>\<open>COMPLETED\<close>, the credited id points to a
  wallet document and the conversion of the captured amount to base currency returns a
  value, the route adds that value to the wallet's balance and appends one
  \<^verbatim>\<open>TOP_UP\<close> entry that records the capture id, whatever entries the ledger already
  holds. The callable does so for the caller when the response carries a capture amount
  and a currency code; the guest route does so for the \<^verbatim>\<open>custom_id\<close> of the order
  when that is present, and takes a missing amount as 0 and a missing currency code as
  \<^verbatim>\<open>USD\<close>.
\<close>

theorem capture_credits_whatever_the_ledger_holds:
  assumes "getPayPalAccessToken g = Inr token"
    and "gw_capture g = Resolves capRes"
    and "cr_ok capRes" and "cr_status capRes = Some ''COMPLETED''"
    and "orderId \<noteq> []"
  shows "(\<forall>(req :: capture_request) u wRef (cap :: capture_obj) d ccy credit.
            cq_auth req = Some u \<and> u \<noteq> [] \<and> cq_orderId req = orderId \<and>
            walletDoc u = Inr wRef \<and> cr_capture capRes = Some cap \<and>
            cap_amount cap = Some d \<and> cap_currency_code cap = Some ccy \<and> ccy \<noteq> [] \<and>
            toBase g rt (fl d) (toUpperCase ccy) = Inr credit \<longrightarrow>
            (\<exists>s'. capturePayPalOrder g rt req s =
                (Inr \<lparr> res_credited = toFixed2 credit, res_currency = rt_base rt,
                       res_paypal_id = cap_id cap \<rparr>, s') \<and>
              balanceOf (wallets s' wRef) = jsAdd (balanceOf (wallets s wRef)) credit \<and>
              transactions s' wRef = transactions s wRef @
                [(rt_doc1 rt, TOP_UP orderId (orNull (cap_id cap)) (fl d) (toUpperCase ccy)
                                credit (rt_base rt) (rt_now rt) None)])) \<and>
         (\<forall>r wRef credit.
            cr_custom_id capRes = Some r \<and> r \<noteq> [] \<and> walletDoc r = Inr wRef \<and>
            toBase g rt (guestGross capRes) (guestCurrency capRes) = Inr credit \<longrightarrow>
            (\<exists>s'. guestCapture g rt orderId s =
                (\<lparr> http_status = 200,
                   http_body = Credited (toFixed2 credit) (rt_base rt) \<rparr>, s') \<and>
              balanceOf (wallets s' wRef) = jsAdd (balanceOf (wallets s wRef)) credit \<and>
              transactions s' wRef = transactions s wRef @
                [(rt_doc1 rt, TOP_UP orderId (guestCaptureId capRes) (guestGross capRes)
                                (guestCurrency capRes) credit (rt_base rt) (rt_now rt)
                                (Some ''GUEST''))]))"
proof (intro conjI allI impI)
  fix req :: capture_request and u wRef and cap :: capture_obj and d ccy credit
  assume "cq_auth req = Some u \<and> u \<noteq> [] \<and> cq_orderId req = orderId \<and>
            walletDoc u = Inr wRef \<and> cr_capture capRes = Some cap \<and>
            cap_amount cap = Some d \<and> cap_currency_code cap = Some ccy \<and> ccy \<noteq> [] \<and>
            toBase g rt (fl d) (toUpperCase ccy) = Inr credit"
  with assms show "\<exists>s'. capturePayPalOrder g rt req s =
                (Inr \<lparr> res_credited = toFixed2 credit, res_currency = rt_base rt,
                       res_paypal_id = cap_id cap \<rparr>, s') \<and>
              balanceOf (wallets s' wRef) = jsAdd (balanceOf (wallets s wRef)) credit \<and>
              transactions s' wRef = transactions s wRef @
                [(rt_doc1 rt, TOP_UP orderId (orNull (cap_id cap)) (fl d) (toUpperCase ccy)
                                credit (rt_base rt) (rt_now rt) None)]"
    by (simp add: capturePayPalOrder_def uidOrThrow_def runTransaction_def credit_body_def
        set_wallet_def add_tx_def merge_wallet_def balanceOf_def Let_def orNull_def)
next
  fix r wRef credit
  assume "cr_custom_id capRes = Some r \<and> r \<noteq> [] \<and> walletDoc r = Inr wRef \<and>
            toBase g rt (guestGross capRes) (guestCurrency capRes) = Inr credit"
  with assms show "\<exists>s'. guestCapture g rt orderId s =
                (\<lparr> http_status = 200,
                   http_body = Credited (toFixed2 credit) (rt_base rt) \<rparr>, s') \<and>
              balanceOf (wallets s' wRef) = jsAdd (balanceOf (wallets s wRef)) credit \<and>
              transactions s' wRef = transactions s wRef @
                [(rt_doc1 rt, TOP_UP orderId (guestCaptureId capRes) (guestGross capRes)
                                (guestCurrency capRes) credit (rt_base rt) (rt_now rt)
                                (Some ''GUEST''))]"
    by (simp add: guestCapture_def runTransaction_def credit_body_def
        set_wallet_def add_tx_def merge_wallet_def balanceOf_def Let_def orNull_def)
qed

text \<open>The replay on the example data: the ledger already holds the entry of capture
  \<open>CAP-1\<close>, and the same completed capture is credited once more, by the callable and
  by the guest route.\<close>

theorem capture_credits_whatever_the_ledger_holds_witness:
  "entriesOfCapture ''CAP-1'' (transactions ex_captured_once ''alice'') =
     [(''doc-a'', TOP_UP ''ORDER-1'' (Some ''CAP-1'') 50 ''ZAR'' 50 ''ZAR'' 1000 None)] \<and>
   balanceOf (wallets ex_captured_once ''alice'') = 150 \<and>
   (\<exists>s'. capturePayPalOrder ex_gateway ex_rt2 ex_capture ex_captured_once =
            (Inr \<lparr> res_credited = 50, res_currency = ''ZAR'', res_paypal_id = Some ''CAP-1'' \<rparr>, s') \<and>
          balanceOf (wallets s' ''alice'') = 200 \<and>
          transactions s' ''alice'' = transactions ex_captured_once ''alice'' @
            [(''doc-c'', TOP_UP ''ORDER-1'' (Some ''CAP-1'') 50 ''ZAR'' 50 ''ZAR'' 2000 None)]) \<and>
   (\<exists>s'. guestCapture ex_gateway ex_rt2 ''ORDER-1'' ex_captured_once =
            (\<lparr> http_status = 200, http_body = Credited 50 ''ZAR'' \<rparr>, s') \<and>
          balanceOf (wallets s' ''alice'') = 200 \<and>
          transactions s' ''alice'' = transactions ex_captured_once ''alice'' @
            [(''doc-c'', TOP_UP ''ORDER-1'' (Some ''CAP-1'') 50 ''ZAR'' 50 ''ZAR'' 2000
                (Some ''GUEST''))])"
proof -
  define capRes where "capRes =
     \<lparr> cr_ok = True, cr_status = Some ''COMPLETED'', cr_custom_id = Some ''alice'',
       cr_capture = Some \<lparr> cap_id = Some ''CAP-1'', cap_amount = Some 50,
                            cap_currency_code = Some ''ZAR'' \<rparr> \<rparr>"
  have once: "entriesOfCapture ''CAP-1'' (transactions ex_captured_once ''alice'') =
     [(''doc-a'', TOP_UP ''ORDER-1'' (Some ''CAP-1'') 50 ''ZAR'' 50 ''ZAR'' 1000 None)]"
    by code_simp
  have bal: "balanceOf (wallets ex_captured_once ''alice'') = 150"
    by code_simp
  have w: "walletDoc ''alice'' = Inr ''alice''" by (simp add: walletDoc_plain)
  have up: "toUpperCase ''ZAR'' = ''ZAR''" by code_simp
  have fifty: "fl 50 = 50" by code_simp
  have rounded: "toFixed2 50 = 50" by code_simp
  have sum: "jsAdd 150 50 = 200" by code_simp
  have gg: "guestGross capRes = 50" "guestCurrency capRes = ''ZAR''"
    "guestCaptureId capRes = Some ''CAP-1''"
    by (simp_all add: capRes_def guestGross_def guestCurrency_def guestCaptureId_def fifty up
        orNull_def)
  have cid: "cr_custom_id capRes = Some ''alice''"
    by (simp add: capRes_def)
  have okc: "cr_ok capRes" "cr_status capRes = Some ''COMPLETED''"
    by (simp_all add: capRes_def)
  have ord: "''ORDER-1'' \<noteq> []"
    by simp
  have tok: "getPayPalAccessToken ex_gateway = Inr ''tok''"
    by (simp add: getPayPalAccessToken_def requireEnv_def orNull_def ex_gateway_def)
  have cap: "gw_capture ex_gateway = Resolves capRes"
    by (simp add: ex_gateway_def capRes_def)
  have rt: "rt_base ex_rt2 = ''ZAR''" "rt_now ex_rt2 = 2000" "rt_doc1 ex_rt2 = ''doc-c''"
    by (simp_all add: ex_rt2_def)
  have base: "toBase ex_gateway ex_rt2 50 ''ZAR'' = Inr 50"
    by (simp add: toBase_def rt)
  note both = capture_credits_whatever_the_ledger_holds
         [of ex_gateway "''tok''" capRes "''ORDER-1''" ex_rt2 ex_captured_once,
          OF tok cap okc ord]
  have callable: "\<exists>s'. capturePayPalOrder ex_gateway ex_rt2 ex_capture ex_captured_once =
            (Inr \<lparr> res_credited = 50, res_currency = ''ZAR'', res_paypal_id = Some ''CAP-1'' \<rparr>, s') \<and>
          balanceOf (wallets s' ''alice'') = 200 \<and>
          transactions s' ''alice'' = transactions ex_captured_once ''alice'' @
            [(''doc-c'', TOP_UP ''ORDER-1'' (Some ''CAP-1'') 50 ''ZAR'' 50 ''ZAR'' 2000 None)]"
    using both[THEN conjunct1, rule_format, of ex_capture "''alice''" "''alice''"
        "\<lparr> cap_id = Some ''CAP-1'', cap_amount = Some 50, cap_currency_code = Some ''ZAR'' \<rparr>"
        50 "''ZAR''" 50]
    by (simp add: capRes_def ex_capture_def w up fifty rounded bal sum base orNull_def rt)
  have guest: "\<exists>s'. guestCapture ex_gateway ex_rt2 ''ORDER-1'' ex_captured_once =
            (\<lparr> http_status = 200, http_body = Credited 50 ''ZAR'' \<rparr>, s') \<and>
          balanceOf (wallets s' ''alice'') = 200 \<and>
          transactions s' ''alice'' = transactions ex_captured_once ''alice'' @
            [(''doc-c'', TOP_UP ''ORDER-1'' (Some ''CAP-1'') 50 ''ZAR'' 50 ''ZAR'' 2000
                (Some ''GUEST''))]"
    using both[THEN conjunct2, rule_format, of "''alice''" "''alice''" 50]
    by (simp add: gg cid w rounded bal sum base rt)
  from once bal callable guest show ?thesis by blast
qed

text \<open>The claim fails on the example: after the replay the ledger holds two entries of
  capture \<open>CAP-1\<close> and the wallet, which held 100, holds 200 for one payment of 50.\<close>

theorem capture_replay_counterexample:
  "map fst (entriesOfCapture ''CAP-1'' (transactions ex_captured_twice ''alice'')) =
     [''doc-a'', ''doc-c''] \<and>
   balanceOf (wallets ex_store ''alice'') = 100 \<and>
   balanceOf (wallets ex_captured_once ''alice'') = 150 \<and>
   balanceOf (wallets ex_captured_twice ''alice'') = 200"
  by code_simp

subsection \<open>Ride fare\<close>

text \<open>The fee is the product of the doubles, rounded to the nearest integer with a half
  going up; a rate of 0 or less counts as 0 and a rate of 0.95 or more as 0.95.\<close>

lemma platformFee_rounds_and_clamps:
  "platformFee fare rate =
     of_int \<lfloor>fl (fare * (if rate \<le> 0 then 0
                          else if fl (19 / 20) \<le> rate then fl (19 / 20) else rate)) + 1 / 2\<rfloor>"
proof -
  have "0 < fl (19 / 20)"
    by code_simp
  then show ?thesis
    by (auto simp: platformFee_def Math_round_def jsMul_def clampRate_def max_def min_def)
qed

lemma platformFee_examples:
  "platformFee 100 (fl (1 / 5)) = 20 \<and> platformFee 50 (fl (29 / 100)) = 14 \<and>
   platformFee 7 (fl (1 / 2)) = 4 \<and> platformFee 100 (fl (3 / 2)) = 95 \<and>
   platformFee 100 (- 1) = 0"
  by code_simp

text \<open>When rider and driver are different principals the settlement is as C5 has it.\<close>

lemma payDriverOnComplete_distinct_principals:
  assumes "rr_auth req = Some rider" and "rider \<noteq> []"
    and "rr_rideId req = rideId" and "rideId \<noteq> []"
    and "rides s rideId = Some r" and "\<not> alreadySettled r"
    and "ride_userId r = rider" and "ride_status r = ''on_trip''"
    and "ride_driverId r = Some driver" and "driver \<noteq> []" and "driver \<noteq> rider"
    and "ride_estimatedFareZAR r = Some fare" and "0 < fare"
    and "fare \<le> balanceOf (wallets s rider)"
    and "fee = platformFee fare (feeRate rt)"
  shows "\<exists>s'. payDriverOnComplete rt req s = (Inr True, s') \<and>
            balanceOf (wallets s' rider) = jsSub (balanceOf (wallets s rider)) fare \<and>
            balanceOf (wallets s' driver) =
              jsAdd (balanceOf (wallets s driver)) (jsSub fare fee) \<and>
            transactions s' rider = transactions s rider @
              [(rt_doc1 rt,
                RIDE_PAYMENT rideId driver fare (rt_base rt) fee (jsSub fare fee) (rt_now rt))] \<and>
            transactions s' driver = transactions s driver @
              [(rt_doc2 rt,
                RIDE_EARN rideId rider (jsSub fare fee) (rt_base rt) fee (rt_now rt))]"
  using assms
  by (simp add: payDriverOnComplete_def uidOrThrow_def runTransaction_def payDriver_body_def
      payDriver_writes_def orNull_def set_wallet_def add_tx_def
      merge_wallet_def balanceOf_def Let_def)

lemma payDriverOnComplete_distinct_principals_example:
  "fst (payDriverOnComplete ex_rt (ex_settle ''alice'' ''r1'') ex_store) = Inr True \<and>
   balanceOf (wallets (snd (payDriverOnComplete ex_rt (ex_settle ''alice'' ''r1'') ex_store))
     ''alice'') = 0 \<and>
   balanceOf (wallets (snd (payDriverOnComplete ex_rt (ex_settle ''alice'' ''r1'') ex_store))
     ''dave'') = 80 \<and>
   transactions (snd (payDriverOnComplete ex_rt (ex_settle ''alice'' ''r1'') ex_store)) ''alice'' =
     [(''doc-a'', RIDE_PAYMENT ''r1'' ''dave'' 100 ''ZAR'' 20 80 1000)] \<and>
   transactions (snd (payDriverOnComplete ex_rt (ex_settle ''alice'' ''r1'') ex_store)) ''dave'' =
     [(''doc-b'', RIDE_EARN ''r1'' ''alice'' 80 ''ZAR'' 20 1000)]"
  by code_simp

text \<open>
  C5. In ride-fare settlement the platform fee is \<open>round (fare * rate)\<close> with the rate
  clamped to the interval from 0 to 0.95 and the payout is the fare less the fee; for a
  fare of 100 at a rate of 0.20 the fee is 20 and the payout 80, the rider is debited
  100 and the driver is credited 80.

  The code does not do this when the driver of the ride is the rider. The fee and the
  payout are computed as claimed, but the settlement writes the rider's wallet and then
  the driver's, both from the balance read at the start; with one wallet for both, the
  second write replaces the first. The wallet ends at the old balance plus the payout:
  the rider is not debited, and both ledger entries are written all the same.
  \<^verbatim>\<open>transferFunds\<close> refuses a recipient who is the sender; this flow has no such test.
\<close>

theorem payDriverOnComplete_self_ride_not_debited:
  assumes "rr_auth req = Some rider" and "rider \<noteq> []"
    and "rr_rideId req = rideId" and "rideId \<noteq> []"
    and "rides s rideId = Some r" and "\<not> alreadySettled r"
    and "ride_userId r = rider" and "ride_status r = ''on_trip''"
    and "ride_driverId r = Some rider"
    and "ride_estimatedFareZAR r = Some fare" and "0 < fare"
    and "fare \<le> balanceOf (wallets s rider)"
    and "fee = platformFee fare (feeRate rt)"
  shows "\<exists>s'. payDriverOnComplete rt req s = (Inr True, s') \<and>
            balanceOf (wallets s' rider) =
              jsAdd (balanceOf (wallets s rider)) (jsSub fare fee) \<and>
            transactions s' rider = transactions s rider @
              [(rt_doc1 rt,
                RIDE_PAYMENT rideId rider fare (rt_base rt) fee (jsSub fare fee) (rt_now rt)),
               (rt_doc2 rt,
                RIDE_EARN rideId rider (jsSub fare fee) (rt_base rt) fee (rt_now rt))]"
  using assms
  by (simp add: payDriverOnComplete_def uidOrThrow_def runTransaction_def payDriver_body_def
      payDriver_writes_def orNull_def set_wallet_def add_tx_def
      merge_wallet_def balanceOf_def Let_def)

text \<open>Alice rides with herself as driver at a fare of 100 and the default rate: the fee
  is 20, the payout 80, and her balance of 100 becomes 180.\<close>

theorem payDriverOnComplete_self_ride_not_debited_witness:
  "platformFee 100 (feeRate ex_rt) = 20 \<and>
   balanceOf (wallets ex_store_self ''alice'') = 100 \<and>
   fst (payDriverOnComplete ex_rt (ex_settle ''alice'' ''r3'') ex_store_self) = Inr True \<and>
   balanceOf (wallets (snd (payDriverOnComplete ex_rt (ex_settle ''alice'' ''r3'') ex_store_self))
     ''alice'') = 180 \<and>
   transactions (snd (payDriverOnComplete ex_rt (ex_settle ''alice'' ''r3'') ex_store_self))
     ''alice'' =
     [(''doc-a'', RIDE_PAYMENT ''r3'' ''alice'' 100 ''ZAR'' 20 80 1000),
      (''doc-b'', RIDE_EARN ''r3'' ''alice'' 80 ''ZAR'' 20 1000)]"
proof -
  have fee: "platformFee 100 (feeRate ex_rt) = 20"
    by code_simp
  have bal: "balanceOf (wallets ex_store_self ''alice'') = 100"
    by code_simp
  have payout: "jsSub 100 20 = 80" and sum: "jsAdd 100 80 = 180"
    by code_simp+
  have rt: "rt_base ex_rt = ''ZAR''" "rt_now ex_rt = 1000" "rt_doc1 ex_rt = ''doc-a''"
    "rt_doc2 ex_rt = ''doc-b''"
    by (simp_all add: ex_rt_def)
  have ride: "rides ex_store_self ''r3'' =
      Some ((ex_ride ''on_trip'')\<lparr> ride_driverId := Some ''alice'' \<rparr>)"
    by (simp add: ex_store_self_def)
  have empty: "transactions ex_store_self ''alice'' = []"
    by (simp add: ex_store_self_def ex_store_def)
  from payDriverOnComplete_self_ride_not_debited
         [of "ex_settle ''alice'' ''r3''" "''alice''" "''r3''" ex_store_self
             "(ex_ride ''on_trip'')\<lparr> ride_driverId := Some ''alice'' \<rparr>" 100 20 ex_rt, OF _ _ _ _ ride]
  obtain s' where
    "payDriverOnComplete ex_rt (ex_settle ''alice'' ''r3'') ex_store_self = (Inr True, s')"
    and "balanceOf (wallets s' ''alice'') = 180"
    and "transactions s' ''alice'' =
           [(''doc-a'', RIDE_PAYMENT ''r3'' ''alice'' 100 ''ZAR'' 20 80 1000),
            (''doc-b'', RIDE_EARN ''r3'' ''alice'' 80 ''ZAR'' 20 1000)]"
    using fee bal payout sum
    by (auto simp: ex_settle_def ex_ride_def alreadySettled_def rt empty)
  with fee bal show ?thesis by simp
qed

end
